theory Spec2Isabelle
  imports Complex_Main
begin

section \<open>The Poisson backend of example\_poisson.py\<close>

text \<open>
  The source is one class, \<^verbatim>\<open>PoissonPDF\<close>, over three numpy arrays. A one-dimensional
  float array is a \<open>real list\<close>: float64 arithmetic is idealised to the reals, so rounding,
  overflow and NaN inputs are outside the model. The two float results that are not
  numbers and that the log-likelihood can produce, \<^verbatim>\<open>-inf\<close> and \<^verbatim>\<open>nan\<close>, are constructors
  of the result type \<open>npfloat\<close>. Every exception is a value of \<open>error\<close>.
\<close>

subsection \<open>Errors and float results\<close>

text \<open>
  \<open>IndexError\<close> and \<open>ValueError\<close> are the Python exceptions that numpy raises in the code
  paths below. \<open>InvalidConstruction\<close> and \<open>DegenerateModel\<close> are the error names of the
  specification; no statement of the source constructs either of them.
\<close>

datatype error = IndexError | ValueError | InvalidConstruction | DegenerateModel

datatype npfloat = Fin real | NegInf | NaN

text \<open>Float addition on these values: nan absorbs, \<^verbatim>\<open>-inf\<close> absorbs every finite value.\<close>

fun np_add :: "npfloat \<Rightarrow> npfloat \<Rightarrow> npfloat" where
  "np_add NaN y = NaN"
| "np_add x NaN = NaN"
| "np_add NegInf y = NegInf"
| "np_add x NegInf = NegInf"
| "np_add (Fin a) (Fin b) = Fin (a + b)"

text \<open>\<^verbatim>\<open>np.sum\<close>: the sum of the entries, \<^verbatim>\<open>0.0\<close> for an empty array.\<close>

definition np_sum :: "npfloat list \<Rightarrow> npfloat" where
  "np_sum xs = foldl np_add (Fin 0) xs"

subsection \<open>The numpy operations the class uses\<close>

text \<open>\<^verbatim>\<open>pars[0]\<close>: indexing raises \<^verbatim>\<open>IndexError\<close> out of range.\<close>

definition getitem :: "real list \<Rightarrow> nat \<Rightarrow> error + real" where
  "getitem xs i = (if i < length xs then Inr (xs ! i) else Inl IndexError)"

text \<open>
  An elementwise binary operation on two one-dimensional arrays, with numpy's
  broadcasting: equal lengths combine entry by entry, an array of length one is
  stretched to the other's length, anything else raises \<^verbatim>\<open>ValueError\<close>.
\<close>

definition np_broadcast :: "('a \<Rightarrow> 'b \<Rightarrow> 'c) \<Rightarrow> 'a list \<Rightarrow> 'b list \<Rightarrow> error + 'c list" where
  "np_broadcast f xs ys =
     (if length xs = length ys then Inr (map2 f xs ys)
      else if length xs = 1 then Inr (map (f (hd xs)) ys)
      else if length ys = 1 then Inr (map (\<lambda>x. f x (hd ys)) xs)
      else Inl ValueError)"

text \<open>
  \<^verbatim>\<open>xs[mask]\<close> with a boolean mask: the entries where the mask is true, in order;
  a mask of another length raises \<^verbatim>\<open>IndexError\<close>.
\<close>

definition np_mask :: "'a list \<Rightarrow> bool list \<Rightarrow> error + 'a list" where
  "np_mask xs sel =
     (if length sel = length xs then Inr (map fst (filter snd (zip xs sel)))
      else Inl IndexError)"

text \<open>\<^verbatim>\<open>np.min\<close>: a reduction with no identity, \<^verbatim>\<open>ValueError\<close> on an empty array.\<close>

definition np_min :: "real list \<Rightarrow> error + real" where
  "np_min xs = (case xs of [] \<Rightarrow> Inl ValueError | x # rest \<Rightarrow> Inr (fold min rest x))"

text \<open>\<^verbatim>\<open>np.any\<close>: true when some entry is true.\<close>

definition np_any :: "bool list \<Rightarrow> bool" where
  "np_any bs = list_ex (\<lambda>b. b) bs"

subsection \<open>scipy.stats.poisson\<close>

text \<open>
  \<^verbatim>\<open>poisson.logpmf(k, mu)\<close> for one entry. The library (not part of the repository)
  computes it in \<^verbatim>\<open>rv_discrete.logpmf\<close>: the output starts as \<^verbatim>\<open>-inf\<close>; where the
  argument check of the distribution fails (\<^verbatim>\<open>poisson_gen._argcheck\<close> is \<^verbatim>\<open>mu >= 0\<close>)
  it is the bad value \<^verbatim>\<open>nan\<close>; where the check holds and \<^verbatim>\<open>k\<close> is in the support
  (\<^verbatim>\<open>k >= 0\<close> and \<^verbatim>\<open>floor(k) == k\<close>) it is
  \<^verbatim>\<open>poisson_gen._logpmf\<close>, that is \<^verbatim>\<open>xlogy(k, mu) - gammaln(k + 1) - mu\<close>.
  \<^verbatim>\<open>xlogy(k, mu)\<close> is \<^verbatim>\<open>0\<close> for \<^verbatim>\<open>k = 0\<close> and \<^verbatim>\<open>k * log(mu)\<close> otherwise, so
  \<^verbatim>\<open>-inf\<close> for \<^verbatim>\<open>k > 0\<close> and \<^verbatim>\<open>mu = 0\<close>; \<^verbatim>\<open>gammaln(k + 1)\<close> is \<^verbatim>\<open>log(k!)\<close> at an integer
  \<^verbatim>\<open>k >= 0\<close>.
\<close>

definition xlogy :: "real \<Rightarrow> real \<Rightarrow> npfloat" where
  "xlogy x y = (if x = 0 then Fin 0 else if y = 0 then NegInf else Fin (x * ln y))"

definition poisson_logpmf :: "real \<Rightarrow> real \<Rightarrow> npfloat" where
  "poisson_logpmf k mu =
     (if \<not> 0 \<le> mu then NaN
      else if \<not> (0 \<le> k \<and> of_int \<lfloor>k\<rfloor> = k) then NegInf
      else np_add (xlogy k mu) (Fin (- ln (fact (nat \<lfloor>k\<rfloor>)) - mu)))"

subsection \<open>The collaborators from spey\<close>

text \<open>\<^verbatim>\<open>spey.ExpectationType\<close>, the enumeration the source compares against.\<close>

datatype ExpectationType = observed | apriori | aposteriori

text \<open>
  Modelled from the spec: the declaration of \<^verbatim>\<open>ModelConfig\<close>
  (\<^verbatim>\<open>spey.base.model_config\<close>) is not under src/. The source passes four positional
  arguments; the fields carry the attribute names the specification gives them.
\<close>

record ModelConfig =
  poi_index :: nat
  min_poi :: real
  suggested_init :: "real list"
  bounds :: "(real \<times> real) list"

subsection \<open>PoissonPDF\<close>

record PoissonPDF =
  signal_yields :: "real list"
  background_yields :: "real list"
  data :: "real list"

text \<open>\<^verbatim>\<open>__init__\<close> assigns the three arguments to the fields and does nothing else.\<close>

definition init :: "real list \<Rightarrow> real list \<Rightarrow> real list \<Rightarrow> error + PoissonPDF" where
  "init sig bkg obs = Inr \<lparr>signal_yields = sig, background_yields = bkg, data = obs\<rparr>"

definition is_alive :: "PoissonPDF \<Rightarrow> bool" where
  "is_alive m = np_any (map (\<lambda>s. s > 0) (signal_yields m))"

definition config :: "PoissonPDF \<Rightarrow> bool \<Rightarrow> real \<Rightarrow> error + ModelConfig" where
  "config m allow_negative_signal poi_upper_bound =
     (case np_mask (background_yields m) (map (\<lambda>s. s > 0) (signal_yields m)) of
        Inl e \<Rightarrow> Inl e
      | Inr num \<Rightarrow>
     (case np_mask (signal_yields m) (map (\<lambda>s. s > 0) (signal_yields m)) of
        Inl e \<Rightarrow> Inl e
      | Inr den \<Rightarrow>
     (case np_broadcast (/) num den of
        Inl e \<Rightarrow> Inl e
      | Inr ratios \<Rightarrow>
     (case np_min ratios of
        Inl e \<Rightarrow> Inl e
      | Inr lowest \<Rightarrow>
          Inr \<lparr>poi_index = 0,
               min_poi = - lowest,
               suggested_init = [0],
               bounds = [(if allow_negative_signal then - lowest else 0,
                          poi_upper_bound)]\<rparr>))))"

text \<open>
  \<^verbatim>\<open>pars[0] * self.signal_yields + self.background_yields\<close>, the expression shared
  by the likelihood, the sampler and \<^verbatim>\<open>expected_data\<close>.
\<close>

definition rates :: "PoissonPDF \<Rightarrow> real list \<Rightarrow> error + real list" where
  "rates m pars =
     (case getitem pars 0 of
        Inl e \<Rightarrow> Inl e
      | Inr mu \<Rightarrow> np_broadcast (+) (map (\<lambda>s. mu * s) (signal_yields m)) (background_yields m))"

definition expected_data :: "PoissonPDF \<Rightarrow> real list \<Rightarrow> error + real list" where
  "expected_data m pars = rates m pars"

definition get_logpdf_func ::
  "PoissonPDF \<Rightarrow> ExpectationType \<Rightarrow> real list option \<Rightarrow> real list \<Rightarrow> error + npfloat" where
  "get_logpdf_func m expected dat =
     (let current_data = (if expected = apriori then background_yields m else data m);
          dat' = (case dat of None \<Rightarrow> current_data | Some d \<Rightarrow> d)
      in (\<lambda>pars.
            case rates m pars of
              Inl e \<Rightarrow> Inl e
            | Inr lam \<Rightarrow>
                (case np_broadcast poisson_logpmf dat' lam of
                   Inl e \<Rightarrow> Inl e
                 | Inr terms \<Rightarrow> Inr (np_sum terms))))"

text \<open>
  \<^verbatim>\<open>poisson.rvs\<close> draws from the generator of the process, so it is a parameter of the
  model: a function of the rate vector, the requested shape and the generator state.
  The sampler closure hands it the rate vector and the shape
  \<^verbatim>\<open>(sample_size, len(self.signal_yields))\<close>.
\<close>

definition get_sampler ::
  "(real list \<Rightarrow> int \<times> nat \<Rightarrow> 'g \<Rightarrow> error + (int list list \<times> 'g)) \<Rightarrow>
   PoissonPDF \<Rightarrow> real list \<Rightarrow> int \<Rightarrow> 'g \<Rightarrow> error + (int list list \<times> 'g)" where
  "get_sampler rvs m pars =
     (\<lambda>sample_size g.
        case rates m pars of
          Inl e \<Rightarrow> Inl e
        | Inr lam \<Rightarrow> rvs lam (sample_size, length (signal_yields m)) g)"

section \<open>Properties\<close>

subsection \<open>Facts about the shared expressions\<close>

lemma np_broadcast_same_length:
  "length xs = length ys \<Longrightarrow>
   np_broadcast f xs ys = Inr (map (\<lambda>i. f (xs ! i) (ys ! i)) [0..<length ys])"
  by (auto simp: np_broadcast_def intro!: nth_equalityI)

lemma rates_well_formed:
  assumes "length (background_yields m) = length (signal_yields m)"
    and "getitem pars 0 = Inr mu"
  shows "rates m pars =
    Inr (map (\<lambda>i. mu * signal_yields m ! i + background_yields m ! i)
           [0..<length (signal_yields m)])"
  using assms by (auto simp: rates_def np_broadcast_def intro!: nth_equalityI)

lemma rates_depend_on_entry_0:
  "getitem pars 0 = getitem pars' 0 \<Longrightarrow> rates m pars = rates m pars'"
  by (simp add: rates_def)

subsection \<open>Facts about sums of float results and the Poisson log-pmf\<close>

lemma foldl_np_add_NaN: "foldl np_add NaN xs = NaN"
  by (induction xs) simp_all

lemma foldl_np_add_has_NaN: "NaN \<in> set xs \<Longrightarrow> foldl np_add a xs = NaN"
proof (induction xs arbitrary: a)
  case Nil
  then show ?case by simp
next
  case (Cons x xs)
  show ?case
  proof (cases "x = NaN")
    case True
    have "np_add a NaN = NaN" by (cases a) simp_all
    with True show ?thesis by (simp add: foldl_np_add_NaN)
  next
    case False
    with Cons show ?thesis by simp
  qed
qed

lemma foldl_np_add_NegInf: "NaN \<notin> set xs \<Longrightarrow> foldl np_add NegInf xs = NegInf"
proof (induction xs)
  case Nil
  then show ?case by simp
next
  case (Cons x xs)
  then have "np_add NegInf x = NegInf" by (cases x) simp_all
  with Cons show ?case by simp
qed

lemma foldl_np_add_has_NegInf:
  "NaN \<notin> set xs \<Longrightarrow> NegInf \<in> set xs \<Longrightarrow> a \<noteq> NaN \<Longrightarrow> foldl np_add a xs = NegInf"
proof (induction xs arbitrary: a)
  case Nil
  then show ?case by simp
next
  case (Cons x xs)
  show ?case
  proof (cases "x = NegInf")
    case True
    with Cons.prems have "np_add a x = NegInf" by (cases a) simp_all
    with Cons.prems show ?thesis by (simp add: foldl_np_add_NegInf)
  next
    case False
    with Cons.prems obtain r where x: "x = Fin r" by (cases x) auto
    with Cons.prems have "np_add a x \<noteq> NaN" by (cases a) simp_all
    with Cons False show ?thesis by simp
  qed
qed

lemma np_sum_NaN: "NaN \<in> set xs \<Longrightarrow> np_sum xs = NaN"
  by (simp add: np_sum_def foldl_np_add_has_NaN)

lemma np_sum_NegInf: "NaN \<notin> set xs \<Longrightarrow> NegInf \<in> set xs \<Longrightarrow> np_sum xs = NegInf"
  by (simp add: np_sum_def foldl_np_add_has_NegInf)

lemma poisson_logpmf_NaN_iff: "poisson_logpmf k mu = NaN \<longleftrightarrow> mu < 0"
  by (auto simp: poisson_logpmf_def xlogy_def)

lemma poisson_logpmf_negative_rate: "mu < 0 \<Longrightarrow> poisson_logpmf k mu = NaN"
  by (simp add: poisson_logpmf_NaN_iff)

lemma poisson_logpmf_zero_rate: "0 < k \<Longrightarrow> poisson_logpmf k 0 = NegInf"
  by (simp add: poisson_logpmf_def xlogy_def)

lemma poisson_logpmf_zero_zero: "poisson_logpmf 0 0 = Fin 0"
  by (simp add: poisson_logpmf_def xlogy_def)

lemma poisson_logpmf_formula:
  "0 < lam \<Longrightarrow> poisson_logpmf (real n) lam = Fin (real n * ln lam - lam - ln (fact n))"
  by (simp add: poisson_logpmf_def xlogy_def)

lemma logpdf_closure:
  assumes "length (background_yields m) = length (signal_yields m)"
    and "getitem pars 0 = Inr mu"
    and "length d = length (signal_yields m)"
  shows "get_logpdf_func m expected (Some d) pars =
    Inr (np_sum (map (\<lambda>i. poisson_logpmf (d ! i)
                         (mu * signal_yields m ! i + background_yields m ! i))
                [0..<length (signal_yields m)]))"
proof -
  let ?lam = "map (\<lambda>i. mu * signal_yields m ! i + background_yields m ! i)
                [0..<length (signal_yields m)]"
  have r: "rates m pars = Inr ?lam"
    using assms(1,2) by (rule rates_well_formed)
  have len: "length d = length ?lam"
    using assms(3) by simp
  have "np_broadcast poisson_logpmf d ?lam =
      Inr (map (\<lambda>i. poisson_logpmf (d ! i) (?lam ! i)) [0..<length ?lam])"
    using len by (rule np_broadcast_same_length)
  also have "map (\<lambda>i. poisson_logpmf (d ! i) (?lam ! i)) [0..<length ?lam] =
      map (\<lambda>i. poisson_logpmf (d ! i)
                 (mu * signal_yields m ! i + background_yields m ! i))
          [0..<length (signal_yields m)]"
    by (rule nth_equalityI) simp_all
  finally show ?thesis
    using r by (simp add: get_logpdf_func_def)
qed

lemma logpdf_data_choice:
  "get_logpdf_func m expected dat =
   get_logpdf_func m expected'
     (Some (case dat of None \<Rightarrow> (if expected = apriori then background_yields m else data m)
            | Some x \<Rightarrow> x))"
  by (simp add: get_logpdf_func_def split: option.splits)

subsection \<open>Facts about the masked ratios\<close>

lemma masked_ratios:
  "length bs = length ss \<Longrightarrow>
   map2 (/) (map fst (filter snd (zip bs (map P ss)))) (map fst (filter snd (zip ss (map P ss))))
     = map (\<lambda>(b, s). b / s) (filter (\<lambda>(b, s). P s) (zip bs ss))"
  by (induction bs ss rule: list_induct2) simp_all

lemma masked_lengths:
  "length bs = length ss \<Longrightarrow>
   length (filter snd (zip bs (map P ss))) = length (filter snd (zip ss (map P ss)))"
  by (induction bs ss rule: list_induct2) simp_all

lemma config_ratios:
  assumes "length (background_yields m) = length (signal_yields m)"
  shows "config m allow ub =
    (case np_min (map (\<lambda>(b, s). b / s)
                   (filter (\<lambda>(b, s). 0 < s) (zip (background_yields m) (signal_yields m)))) of
       Inl e \<Rightarrow> Inl e
     | Inr lowest \<Rightarrow>
         Inr \<lparr>poi_index = 0, min_poi = - lowest, suggested_init = [0],
              bounds = [(if allow then - lowest else 0, ub)]\<rparr>)"
  using assms masked_lengths [OF assms, of "\<lambda>s. 0 < s"] masked_ratios [OF assms, of "\<lambda>s. 0 < s"]
  by (simp add: config_def np_mask_def np_broadcast_def)

lemma np_min_Min:
  assumes "xs \<noteq> []"
  shows "np_min xs = Inr (Min (set xs))"
proof (cases xs)
  case Nil
  with assms show ?thesis by simp
next
  case (Cons x rest)
  have "fold min rest x = Min (set (x # rest))"
    by (rule Min.set_eq_fold [symmetric])
  with Cons show ?thesis by (simp add: np_min_def)
qed

lemma ratio_set:
  assumes "length bs = length ss"
  shows "set (map (\<lambda>(b, s). b / s) (filter (\<lambda>(b, s). 0 < s) (zip bs ss)))
    = (\<lambda>i. bs ! i / ss ! i) ` {i. i < length ss \<and> 0 < ss ! i}"
proof -
  have "set (filter (\<lambda>(b, s). 0 < s) (zip bs ss)) =
      (\<lambda>i. (bs ! i, ss ! i)) ` {i. i < length ss \<and> 0 < ss ! i}"
    using assms by (auto simp: set_zip)
  then have "set (map (\<lambda>(b, s). b / s) (filter (\<lambda>(b, s). 0 < s) (zip bs ss))) =
      (\<lambda>(b, s). b / s) ` (\<lambda>i. (bs ! i, ss ! i)) ` {i. i < length ss \<and> 0 < ss ! i}"
    by simp
  also have "\<dots> = (\<lambda>i. bs ! i / ss ! i) ` {i. i < length ss \<and> 0 < ss ! i}"
    by (simp add: image_image)
  finally show ?thesis .
qed

subsection \<open>The log-likelihood closure\<close>

text \<open>
  Claim C1. For a model whose vectors have one common length and a parameter vector with
  an entry 0, the closure returned by \<open>get_logpdf_func\<close> evaluates to the sum over all bins
  of the Poisson log-pmf of \<open>data[i]\<close> at the rate
  \<open>params[0] * signal_yields[i] + background_yields[i]\<close>, where \<open>data\<close> is the vector the
  factory selected. At a count \<open>n\<close> and a positive rate the log-pmf is
  \<open>n * log(rate) - rate - log(n!)\<close>. For signal \<open>[10, 5]\<close>, background \<open>[2, 3]\<close>, data
  \<open>[12, 8]\<close>, the observed regime and parameters \<open>[1.0]\<close> the closure gives
  log-pmf(12; 12) + log-pmf(8; 8).
\<close>

theorem logpdf_sums_poisson_logpmf:
  "(length (background_yields m) = length (signal_yields m) \<and>
    getitem pars 0 = Inr mu \<and>
    d = (case dat of None \<Rightarrow> (if expected = apriori then background_yields m else data m)
         | Some x \<Rightarrow> x) \<and>
    length d = length (signal_yields m) \<longrightarrow>
      get_logpdf_func m expected dat pars =
        Inr (np_sum (map (\<lambda>i. poisson_logpmf (d ! i)
                             (mu * signal_yields m ! i + background_yields m ! i))
                    [0..<length (signal_yields m)]))) \<and>
   (0 < lam \<longrightarrow> poisson_logpmf (real n) lam = Fin (real n * ln lam - lam - ln (fact n))) \<and>
   get_logpdf_func \<lparr>signal_yields = [10, 5], background_yields = [2, 3], data = [12, 8]\<rparr>
       observed None [1] =
     Inr (np_sum [poisson_logpmf 12 12, poisson_logpmf 8 8]) \<and>
   np_sum [poisson_logpmf 12 12, poisson_logpmf 8 8] =
     Fin ((12 * ln 12 - 12 - ln (fact 12)) + (8 * ln 8 - 8 - ln (fact 8)))"
proof (intro conjI impI)
  assume h: "length (background_yields m) = length (signal_yields m) \<and>
    getitem pars 0 = Inr mu \<and>
    d = (case dat of None \<Rightarrow> (if expected = apriori then background_yields m else data m)
         | Some x \<Rightarrow> x) \<and>
    length d = length (signal_yields m)"
  from h have len: "length (background_yields m) = length (signal_yields m)"
    and p0: "getitem pars 0 = Inr mu"
    and d: "d = (case dat of None \<Rightarrow> (if expected = apriori then background_yields m else data m)
         | Some x \<Rightarrow> x)"
    and lend: "length d = length (signal_yields m)"
    by blast+
  have "get_logpdf_func m expected dat = get_logpdf_func m expected (Some d)"
    unfolding d by (rule logpdf_data_choice)
  then show "get_logpdf_func m expected dat pars =
        Inr (np_sum (map (\<lambda>i. poisson_logpmf (d ! i)
                             (mu * signal_yields m ! i + background_yields m ! i))
                    [0..<length (signal_yields m)]))"
    using logpdf_closure [OF len p0 lend, of expected] by simp
next
  assume "0 < lam"
  then show "poisson_logpmf (real n) lam = Fin (real n * ln lam - lam - ln (fact n))"
    by (rule poisson_logpmf_formula)
next
  show "get_logpdf_func \<lparr>signal_yields = [10, 5], background_yields = [2, 3], data = [12, 8]\<rparr>
       observed None [1] =
     Inr (np_sum [poisson_logpmf 12 12, poisson_logpmf 8 8])"
    by (simp add: get_logpdf_func_def rates_def getitem_def np_broadcast_def)
next
  show "np_sum [poisson_logpmf 12 12, poisson_logpmf 8 8] =
     Fin ((12 * ln 12 - 12 - ln (fact 12)) + (8 * ln 8 - 8 - ln (fact 8)))"
    by (simp add: np_sum_def poisson_logpmf_def xlogy_def)
qed

theorem logpdf_sums_poisson_logpmf_witness:
  "get_logpdf_func \<lparr>signal_yields = [1, 2], background_yields = [3, 1], data = [4, 0]\<rparr>
       aposteriori None [2, 7] =
     Inr (Fin ((4 * ln 5 - 5 - ln (fact 4)) + (0 * ln 5 - 5 - ln (fact 0)))) \<and>
   poisson_logpmf (real 4) 5 = Fin (real 4 * ln 5 - 5 - ln (fact 4))"
proof -
  let ?m = "\<lparr>signal_yields = [1, 2], background_yields = [3, 1], data = [4, 0]\<rparr>"
  have "length (background_yields ?m) = length (signal_yields ?m) \<and>
    getitem [2, 7] 0 = Inr 2 \<and>
    [4, 0] = (case None of None \<Rightarrow> (if aposteriori = apriori then background_yields ?m else data ?m)
         | Some x \<Rightarrow> x) \<and>
    length [4, 0::real] = length (signal_yields ?m)"
    by (simp add: getitem_def)
  moreover have "(0::real) < 5" by simp
  ultimately show ?thesis
    using logpdf_sums_poisson_logpmf [where m = ?m and pars = "[2, 7]" and mu = 2
        and d = "[4, 0]" and dat = None and expected = aposteriori and lam = 5 and n = 4]
    by (simp add: np_sum_def poisson_logpmf_def xlogy_def upt_rec)
qed

text \<open>
  Claim C6. \<open>get_logpdf_func\<close> takes \<open>background_yields\<close> as data in the apriori regime and
  the stored observations in the observed and aposteriori regimes; a supplied data
  argument replaces the selected vector, whatever the regime. For a model whose signal
  and background vectors are equally long and a parameter vector with entry 0 equal to
  \<open>mu\<close>, the closure is therefore the sum over bins of the Poisson log-pmf at rate
  \<open>mu * signal_yields[i] + background_yields[i]\<close> of \<open>background_yields[i]\<close> in the apriori
  regime, of \<open>data[i]\<close> in the observed and aposteriori regimes, and of the supplied
  vector's entry when one is given (the data vector being as long as the signal vector).
  In particular the closure of the apriori regime, at a parameter vector whose entry 0
  is \<open>0\<close>, is the sum over bins of the Poisson log-pmf of \<open>background_yields[i]\<close> at rate
  \<open>background_yields[i]\<close>.
\<close>

theorem logpdf_data_selection:
  "get_logpdf_func m apriori None = get_logpdf_func m expected (Some (background_yields m)) \<and>
   get_logpdf_func m observed None = get_logpdf_func m expected (Some (data m)) \<and>
   get_logpdf_func m aposteriori None = get_logpdf_func m expected (Some (data m)) \<and>
   get_logpdf_func m expected (Some d) = get_logpdf_func m expected' (Some d) \<and>
   (length (background_yields m) = length (signal_yields m) \<and> getitem pars 0 = Inr mu \<longrightarrow>
      get_logpdf_func m apriori None pars =
        Inr (np_sum (map (\<lambda>i. poisson_logpmf (background_yields m ! i)
                             (mu * signal_yields m ! i + background_yields m ! i))
                    [0..<length (signal_yields m)]))) \<and>
   (length (background_yields m) = length (signal_yields m) \<and>
    length (data m) = length (signal_yields m) \<and> getitem pars 0 = Inr mu \<longrightarrow>
      get_logpdf_func m observed None pars =
        Inr (np_sum (map (\<lambda>i. poisson_logpmf (data m ! i)
                             (mu * signal_yields m ! i + background_yields m ! i))
                    [0..<length (signal_yields m)])) \<and>
      get_logpdf_func m aposteriori None pars =
        Inr (np_sum (map (\<lambda>i. poisson_logpmf (data m ! i)
                             (mu * signal_yields m ! i + background_yields m ! i))
                    [0..<length (signal_yields m)]))) \<and>
   (length (background_yields m) = length (signal_yields m) \<and>
    length d = length (signal_yields m) \<and> getitem pars 0 = Inr mu \<longrightarrow>
      get_logpdf_func m expected (Some d) pars =
        Inr (np_sum (map (\<lambda>i. poisson_logpmf (d ! i)
                             (mu * signal_yields m ! i + background_yields m ! i))
                    [0..<length (signal_yields m)]))) \<and>
   (length (background_yields m) = length (signal_yields m) \<and> getitem pars' 0 = Inr 0 \<longrightarrow>
      get_logpdf_func m apriori None pars' =
        Inr (np_sum (map (\<lambda>b. poisson_logpmf b b) (background_yields m))))"
proof -
  let ?s = "signal_yields m" and ?b = "background_yields m"
  let ?sum = "\<lambda>v c. Inr (np_sum (map (\<lambda>i. poisson_logpmf (v ! i) (c * ?s ! i + ?b ! i))
                    [0..<length ?s])) :: error + npfloat"
  have ap: "get_logpdf_func m apriori None = get_logpdf_func m e (Some ?b)" for e
    using logpdf_data_choice [of m apriori None e] by simp
  have ob: "get_logpdf_func m observed None = get_logpdf_func m e (Some (data m))" for e
    using logpdf_data_choice [of m observed None e] by simp
  have po: "get_logpdf_func m aposteriori None = get_logpdf_func m e (Some (data m))" for e
    using logpdf_data_choice [of m aposteriori None e] by simp
  have ov: "get_logpdf_func m e (Some v) = get_logpdf_func m e' (Some v)" for e e' v
    using logpdf_data_choice [of m e "Some v" e'] by simp
  have val: "get_logpdf_func m e (Some v) ps = ?sum v c"
    if "length ?b = length ?s" "length v = length ?s" "getitem ps 0 = Inr c" for e v ps c
    using logpdf_closure [OF that(1) that(3) that(2), of e] .
  have c5: "get_logpdf_func m apriori None pars = ?sum ?b mu"
    if "length ?b = length ?s \<and> getitem pars 0 = Inr mu"
    using that val [of ?b pars mu apriori] by (simp add: ap [of apriori])
  have c6: "get_logpdf_func m observed None pars = ?sum (data m) mu \<and>
            get_logpdf_func m aposteriori None pars = ?sum (data m) mu"
    if "length ?b = length ?s \<and> length (data m) = length ?s \<and> getitem pars 0 = Inr mu"
    using that val [of "data m" pars mu observed]
    by (simp add: ob [of observed] po [of observed])
  have c7: "get_logpdf_func m expected (Some d) pars = ?sum d mu"
    if "length ?b = length ?s \<and> length d = length ?s \<and> getitem pars 0 = Inr mu"
    using that val [of d pars mu expected] by simp
  have c8: "get_logpdf_func m apriori None pars' =
        Inr (np_sum (map (\<lambda>b. poisson_logpmf b b) ?b))"
    if h: "length ?b = length ?s \<and> getitem pars' 0 = Inr 0"
  proof -
    have "get_logpdf_func m apriori None pars' = ?sum ?b 0"
      using h val [of ?b pars' 0 apriori] by (simp add: ap [of apriori])
    moreover have "map (\<lambda>i. poisson_logpmf (?b ! i) (0 * ?s ! i + ?b ! i)) [0..<length ?s]
        = map (\<lambda>b. poisson_logpmf b b) ?b"
      using h by (intro nth_equalityI) simp_all
    ultimately show ?thesis by simp
  qed
  show ?thesis
    using ap [of expected] ob [of expected] po [of expected] ov [of expected d expected']
      c5 c6 c7 c8
    by blast
qed

theorem logpdf_data_selection_witness:
  "get_logpdf_func \<lparr>signal_yields = [10, 5], background_yields = [2, 3], data = [12, 8]\<rparr>
      apriori None [0] =
     Inr (np_sum [poisson_logpmf 2 2, poisson_logpmf 3 3]) \<and>
   get_logpdf_func \<lparr>signal_yields = [10, 5], background_yields = [2, 3], data = [12, 8]\<rparr>
      apriori None [1] =
     Inr (np_sum [poisson_logpmf 2 12, poisson_logpmf 3 8]) \<and>
   get_logpdf_func \<lparr>signal_yields = [10, 5], background_yields = [2, 3], data = [12, 8]\<rparr>
      observed None [1] =
     Inr (np_sum [poisson_logpmf 12 12, poisson_logpmf 8 8]) \<and>
   get_logpdf_func \<lparr>signal_yields = [10, 5], background_yields = [2, 3], data = [12, 8]\<rparr>
      aposteriori None [1] =
     Inr (np_sum [poisson_logpmf 12 12, poisson_logpmf 8 8]) \<and>
   get_logpdf_func \<lparr>signal_yields = [10, 5], background_yields = [2, 3], data = [12, 8]\<rparr>
      apriori (Some [4, 0]) [1] =
     Inr (np_sum [poisson_logpmf 4 12, poisson_logpmf 0 8]) \<and>
   get_logpdf_func \<lparr>signal_yields = [1], background_yields = [1 / 2], data = [1]\<rparr>
      apriori None [1] = Inr NegInf \<and>
   get_logpdf_func \<lparr>signal_yields = [1], background_yields = [1 / 2], data = [1]\<rparr>
      observed None [1] = Inr (Fin (ln (3 / 2) - 3 / 2)) \<and>
   get_logpdf_func \<lparr>signal_yields = [1], background_yields = [1 / 2], data = [1]\<rparr>
      observed (Some [0]) [1] = Inr (Fin (- (3 / 2)))"
proof -
  let ?m = "\<lparr>signal_yields = [10, 5], background_yields = [2, 3], data = [12, 8]\<rparr>"
  let ?k = "\<lparr>signal_yields = [1], background_yields = [1 / 2], data = [1]\<rparr>"
  have p1: "getitem [1] 0 = Inr 1" and p0: "getitem [0] 0 = Inr 0"
    by (simp_all add: getitem_def)
  have upt2: "[0..<length (signal_yields ?m)] = [0, 1]"
    by (simp add: upt_rec)
  have a: "get_logpdf_func ?m apriori None [0] =
       Inr (np_sum [poisson_logpmf 2 2, poisson_logpmf 3 3]) \<and>
     get_logpdf_func ?m apriori None [1] =
       Inr (np_sum [poisson_logpmf 2 12, poisson_logpmf 3 8]) \<and>
     get_logpdf_func ?m observed None [1] =
       Inr (np_sum [poisson_logpmf 12 12, poisson_logpmf 8 8]) \<and>
     get_logpdf_func ?m aposteriori None [1] =
       Inr (np_sum [poisson_logpmf 12 12, poisson_logpmf 8 8]) \<and>
     get_logpdf_func ?m apriori (Some [4, 0]) [1] =
       Inr (np_sum [poisson_logpmf 4 12, poisson_logpmf 0 8])"
    using p1 p0
      logpdf_data_selection [where m = ?m and pars = "[1]" and mu = 1 and d = "[4, 0]"
        and expected = apriori and pars' = "[0]",
        THEN conjunct2, THEN conjunct2, THEN conjunct2, THEN conjunct2]
    by (simp add: upt2)
  have b: "get_logpdf_func ?k apriori None [1] = Inr NegInf \<and>
     get_logpdf_func ?k observed None [1] = Inr (Fin (ln (3 / 2) - 3 / 2)) \<and>
     get_logpdf_func ?k observed (Some [0]) [1] = Inr (Fin (- (3 / 2)))"
    using p1
      logpdf_data_selection [where m = ?k and pars = "[1]" and mu = 1 and d = "[0]"
        and expected = observed,
        THEN conjunct2, THEN conjunct2, THEN conjunct2, THEN conjunct2]
    by (simp add: np_sum_def poisson_logpmf_def xlogy_def)
  from a b show ?thesis by simp
qed

text \<open>
  Claim C7, as stated: whenever a bin's rate is at most \<open>0\<close> and its count is positive,
  the bin contributes \<^verbatim>\<open>-inf\<close> and so does the sum. With signal \<open>[1]\<close>, background \<open>[0]\<close>,
  data \<open>[1]\<close> and parameters \<open>[-1]\<close> the rate is \<open>-1\<close> and the count is \<open>1\<close>, yet the bin and
  the sum are \<^verbatim>\<open>nan\<close>: a negative rate fails the argument check of the distribution.
\<close>

theorem negative_rate_is_nan_counterexample:
  "(- 1) * [1] ! 0 + [0] ! 0 \<le> (0::real) \<and> (0::real) < [1] ! 0 \<and>
   poisson_logpmf ([1] ! 0) ((- 1) * [1] ! 0 + [0] ! 0) \<noteq> NegInf \<and>
   get_logpdf_func \<lparr>signal_yields = [1], background_yields = [0], data = [1]\<rparr>
      observed None [- 1] = Inr NaN \<and>
   Inr NaN \<noteq> (Inr NegInf :: error + npfloat)"
  by (simp add: get_logpdf_func_def rates_def getitem_def np_broadcast_def poisson_logpmf_def
      np_sum_def)

text \<open>
  Claim C7, amended. For a model whose vectors have one common length and a parameter
  vector with an entry 0, the closure never raises, whatever the value of that entry.
  A bin whose rate is exactly \<open>0\<close> while its count is positive contributes \<^verbatim>\<open>-inf\<close>, and
  the sum is \<^verbatim>\<open>-inf\<close> when no bin has a negative rate. A bin whose rate is negative
  contributes \<^verbatim>\<open>nan\<close>, and the sum is then \<^verbatim>\<open>nan\<close>. At rate \<open>0\<close> and count \<open>0\<close> the
  contribution is \<open>0\<close>.
\<close>

theorem logpdf_out_of_domain:
  assumes len: "length (background_yields m) = length (signal_yields m)"
    and p0: "getitem pars 0 = Inr mu"
    and d: "d = (case dat of None \<Rightarrow> (if expected = apriori then background_yields m else data m)
         | Some x \<Rightarrow> x)"
    and lend: "length d = length (signal_yields m)"
    and rate: "rate = (\<lambda>i. mu * signal_yields m ! i + background_yields m ! i)"
  shows "(\<exists>v. get_logpdf_func m expected dat pars = Inr v) \<and>
    (\<forall>i<length (signal_yields m). rate i = 0 \<and> 0 < d ! i \<longrightarrow>
        poisson_logpmf (d ! i) (rate i) = NegInf) \<and>
    ((\<exists>i<length (signal_yields m). rate i = 0 \<and> 0 < d ! i) \<and>
     (\<forall>i<length (signal_yields m). 0 \<le> rate i) \<longrightarrow>
        get_logpdf_func m expected dat pars = Inr NegInf) \<and>
    (\<forall>i<length (signal_yields m). rate i < 0 \<longrightarrow> poisson_logpmf (d ! i) (rate i) = NaN) \<and>
    ((\<exists>i<length (signal_yields m). rate i < 0) \<longrightarrow>
        get_logpdf_func m expected dat pars = Inr NaN) \<and>
    poisson_logpmf 0 0 = Fin 0"
proof -
  let ?n = "length (signal_yields m)"
  let ?terms = "map (\<lambda>i. poisson_logpmf (d ! i) (rate i)) [0..<?n]"
  have "get_logpdf_func m expected dat = get_logpdf_func m expected (Some d)"
    unfolding d by (rule logpdf_data_choice)
  then have val: "get_logpdf_func m expected dat pars = Inr (np_sum ?terms)"
    using logpdf_closure [OF len p0 lend, of expected] by (simp add: rate)
  have neg: "np_sum ?terms = NaN" if "i < ?n" "rate i < 0" for i
  proof -
    have "poisson_logpmf (d ! i) (rate i) \<in> set ?terms"
      using that(1) by auto
    then have "NaN \<in> set ?terms"
      using that(2) by (simp add: poisson_logpmf_negative_rate)
    then show ?thesis by (rule np_sum_NaN)
  qed
  have zero: "np_sum ?terms = NegInf"
    if "i < ?n" "rate i = 0" "0 < d ! i" "\<forall>j<?n. 0 \<le> rate j" for i
  proof -
    have "poisson_logpmf (d ! j) (rate j) \<noteq> NaN" if "j < ?n" for j
      using that \<open>\<forall>j<?n. 0 \<le> rate j\<close> by (simp add: poisson_logpmf_NaN_iff not_less)
    then have "NaN \<notin> set ?terms"
      by (metis (no_types, lifting) atLeast_upt imageE lessThan_iff list.set_map)
    moreover have "poisson_logpmf (d ! i) (rate i) \<in> set ?terms"
      using that(1) by auto
    then have "NegInf \<in> set ?terms"
      using that(2,3) by (simp add: poisson_logpmf_zero_rate)
    ultimately show ?thesis by (rule np_sum_NegInf)
  qed
  show ?thesis
    using val neg zero
    by (auto simp: poisson_logpmf_zero_rate poisson_logpmf_negative_rate poisson_logpmf_zero_zero)
qed

theorem logpdf_out_of_domain_witness:
  "get_logpdf_func \<lparr>signal_yields = [1, 2], background_yields = [1, 5], data = [3, 0]\<rparr>
      observed None [- 1] = Inr NegInf \<and>
   get_logpdf_func \<lparr>signal_yields = [1, 2], background_yields = [1, 5], data = [3, 0]\<rparr>
      observed None [- 2] = Inr NaN"
proof -
  let ?m = "\<lparr>signal_yields = [1, 2], background_yields = [1, 5], data = [3, 0]\<rparr>"
  have len: "length (background_yields ?m) = length (signal_yields ?m)" by simp
  have p1: "getitem [- 1] 0 = Inr (- 1)" and p2: "getitem [- 2] 0 = Inr (- 2)"
    by (simp_all add: getitem_def)
  have d: "[3, 0] = (case None of None \<Rightarrow> (if observed = apriori then background_yields ?m else data ?m)
         | Some x \<Rightarrow> x)" by simp
  have lend: "length [3, 0::real] = length (signal_yields ?m)" by simp
  have a: "(\<exists>i<length (signal_yields ?m).
              - 1 * signal_yields ?m ! i + background_yields ?m ! i = 0 \<and> 0 < [3, 0::real] ! i) \<and>
           (\<forall>i<length (signal_yields ?m). 0 \<le> - 1 * signal_yields ?m ! i + background_yields ?m ! i)"
    by (auto simp: nth_Cons' less_Suc_eq)
  have b: "\<exists>i<length (signal_yields ?m). - 2 * signal_yields ?m ! i + background_yields ?m ! i < 0"
    by (auto simp: nth_Cons' intro: exI [of _ 0])
  from logpdf_out_of_domain [OF len p1 d lend refl] a
  have "get_logpdf_func ?m observed None [- 1] = Inr NegInf" by blast
  moreover from logpdf_out_of_domain [OF len p2 d lend refl] b
  have "get_logpdf_func ?m observed None [- 2] = Inr NaN" by blast
  ultimately show ?thesis by simp
qed

subsection \<open>Configuration\<close>

text \<open>
  Claim C3. For a model with equally long signal and background vectors and at least one
  bin of strictly positive signal yield, \<open>config\<close> returns the configuration with POI
  index \<open>0\<close>, \<open>min_poi\<close> the negative of the least ratio
  \<open>background_yields[i] / signal_yields[i]\<close> over the bins with \<open>signal_yields[i] > 0\<close>,
  suggested initial parameters \<open>[0.0]\<close>, and one bounds pair: its lower bound is \<open>min_poi\<close>
  when negative signal is allowed and \<open>0.0\<close> otherwise, its upper bound is
  \<open>poi_upper_bound\<close>.
\<close>

theorem config_live_model:
  assumes "length (background_yields m) = length (signal_yields m)"
    and "is_alive m"
    and "lowest = Min ((\<lambda>i. background_yields m ! i / signal_yields m ! i) `
                        {i. i < length (signal_yields m) \<and> 0 < signal_yields m ! i})"
  shows "config m allow_negative_signal poi_upper_bound =
     Inr \<lparr>poi_index = 0, min_poi = - lowest, suggested_init = [0],
          bounds = [(if allow_negative_signal then - lowest else 0, poi_upper_bound)]\<rparr>"
proof -
  let ?ratios = "map (\<lambda>(b, s). b / s)
      (filter (\<lambda>(b, s). 0 < s) (zip (background_yields m) (signal_yields m)))"
  from assms(2) obtain i where "i < length (signal_yields m)" "0 < signal_yields m ! i"
    by (auto simp: is_alive_def np_any_def list_ex_iff in_set_conv_nth)
  then have i: "i \<in> {i. i < length (signal_yields m) \<and> 0 < signal_yields m ! i}"
    by simp
  have s: "set ?ratios = (\<lambda>i. background_yields m ! i / signal_yields m ! i) `
                        {i. i < length (signal_yields m) \<and> 0 < signal_yields m ! i}"
    using assms(1) by (rule ratio_set)
  from i have "background_yields m ! i / signal_yields m ! i \<in> set ?ratios"
    unfolding s by (rule imageI)
  then have "?ratios \<noteq> []"
    by (metis empty_iff empty_set)
  then have "np_min ?ratios = Inr (Min (set ?ratios))" by (rule np_min_Min)
  then have "np_min ?ratios = Inr lowest"
    unfolding s assms(3) .
  then show ?thesis
    using config_ratios [OF assms(1), of allow_negative_signal poi_upper_bound] by simp
qed

theorem config_live_model_witness:
  "is_alive \<lparr>signal_yields = [10, 0, 5], background_yields = [2, 7, 3], data = [12, 8, 1]\<rparr> \<and>
   config \<lparr>signal_yields = [10, 0, 5], background_yields = [2, 7, 3], data = [12, 8, 1]\<rparr>
      True 10 =
     Inr \<lparr>poi_index = 0, min_poi = - (1 / 5), suggested_init = [0], bounds = [(- (1 / 5), 10)]\<rparr> \<and>
   config \<lparr>signal_yields = [10, 0, 5], background_yields = [2, 7, 3], data = [12, 8, 1]\<rparr>
      False 10 =
     Inr \<lparr>poi_index = 0, min_poi = - (1 / 5), suggested_init = [0], bounds = [(0, 10)]\<rparr>"
proof -
  let ?m = "\<lparr>signal_yields = [10, 0, 5], background_yields = [2, 7, 3], data = [12, 8, 1]\<rparr>"
  have len: "length (background_yields ?m) = length (signal_yields ?m)" by simp
  have alive: "is_alive ?m" by (simp add: is_alive_def np_any_def)
  have idx: "{i. i < length (signal_yields ?m) \<and> 0 < signal_yields ?m ! i} = {0, 2}"
    by (auto simp: less_Suc_eq numeral_2_eq_2)
  have low: "1 / 5 = Min ((\<lambda>i. background_yields ?m ! i / signal_yields ?m ! i) `
           {i. i < length (signal_yields ?m) \<and> 0 < signal_yields ?m ! i})"
    unfolding idx by simp
  show ?thesis
    using alive config_live_model [OF len alive low, of True 10]
      config_live_model [OF len alive low, of False 10]
    by simp
qed




subsection \<open>Expected data\<close>

text \<open>
  Claim C2. For a model whose signal and background vectors have the same length and a
  parameter vector that has an entry 0, \<open>expected_data\<close> returns a vector with one entry
  per bin, and entry \<open>i\<close> is \<open>params[0] * signal_yields[i] + background_yields[i]\<close>. The
  function is a pure function of the model and the parameters: there is no state to change.
\<close>

theorem expected_data_entries:
  assumes "length (background_yields m) = length (signal_yields m)"
    and "getitem pars 0 = Inr mu"
  shows "\<exists>v. expected_data m pars = Inr v \<and> length v = length (signal_yields m) \<and>
           (\<forall>i<length (signal_yields m).
              v ! i = mu * signal_yields m ! i + background_yields m ! i)"
  using rates_well_formed [OF assms] by (simp add: expected_data_def)

theorem expected_data_entries_witness:
  "length (background_yields
      \<lparr>signal_yields = [10, 5], background_yields = [2, 3], data = [12, 8]\<rparr>) =
   length (signal_yields
      \<lparr>signal_yields = [10, 5], background_yields = [2, 3], data = [12, 8]\<rparr>) \<and>
   getitem [1] 0 = Inr 1 \<and>
   expected_data \<lparr>signal_yields = [10, 5], background_yields = [2, 3], data = [12, 8]\<rparr> [1]
     = Inr [12, 8]"
proof -
  let ?m = "\<lparr>signal_yields = [10, 5], background_yields = [2, 3], data = [12, 8]\<rparr>"
  have len: "length (background_yields ?m) = length (signal_yields ?m)" by simp
  have p0: "getitem [1] 0 = Inr 1" by (simp add: getitem_def)
  from expected_data_entries [OF len p0]
  obtain v where v: "expected_data ?m [1] = Inr v" "length v = 2"
    and e: "\<forall>i<2. v ! i = 1 * [10, 5] ! i + [2, 3::real] ! i"
    by auto
  from e have "v ! 0 = 12" "v ! 1 = 8" by simp_all
  with v(2) have "v = [12, 8]"
    by (cases v; cases "tl v"; cases "tl (tl v)") auto
  with v(1) len p0 show ?thesis by simp
qed

subsection \<open>Liveness\<close>

text \<open>
  Claim C5. \<open>is_alive\<close> is true exactly when some bin has a strictly positive signal
  yield, and false exactly when every signal yield is zero or negative.
\<close>

theorem is_alive_iff:
  "(is_alive m \<longleftrightarrow> (\<exists>s\<in>set (signal_yields m). 0 < s)) \<and>
   (\<not> is_alive m \<longleftrightarrow> (\<forall>s\<in>set (signal_yields m). s \<le> 0))"
  by (auto simp: is_alive_def np_any_def list_ex_iff not_less)

theorem is_alive_iff_witness:
  "is_alive \<lparr>signal_yields = [0, 3], background_yields = [1, 1], data = [1, 1]\<rparr> \<and>
   \<not> is_alive \<lparr>signal_yields = [0, 0], background_yields = [1, 1], data = [1, 1]\<rparr>"
  using is_alive_iff [of "\<lparr>signal_yields = [0, 3], background_yields = [1, 1], data = [1, 1]\<rparr>"]
    is_alive_iff [of "\<lparr>signal_yields = [0, 0], background_yields = [1, 1], data = [1, 1]\<rparr>"]
  by simp

subsection \<open>Construction\<close>

text \<open>
  Claim C8, as stated: construction raises \<open>InvalidConstruction\<close> when the three vectors
  do not have one common length of at least one. The constructor has no check: with a
  signal vector of length two, a background vector of length one and no observations it
  returns the model.
\<close>

theorem init_rejects_nothing_counterexample:
  "length [1, 2 :: real] \<noteq> length [1 :: real] \<and>
   init [1, 2] [1] [] \<noteq> Inl InvalidConstruction \<and>
   init [1, 2] [1] [] = Inr \<lparr>signal_yields = [1, 2], background_yields = [1], data = []\<rparr>"
  by (simp add: init_def)

text \<open>
  Claim C8, amended: construction never raises. Whatever the lengths of the three
  vectors, it succeeds and the model holds exactly the vectors it was given.
\<close>

theorem init_always_succeeds:
  "init sig bkg obs = Inr \<lparr>signal_yields = sig, background_yields = bkg, data = obs\<rparr>"
  by (simp add: init_def)

subsection \<open>Dependence on the parameter vector\<close>

text \<open>
  Claim C10. The log-likelihood closure, the sampler closure and \<open>expected_data\<close> read
  the parameter vector at index 0 only: two parameter vectors that agree there (the same
  entry, or both without one) give the same log-likelihood result, the same call of the
  sampling routine (same rate vector and shape, hence the same sampler as a function of
  the sample size and the generator state), and the same expected data.
\<close>

theorem only_entry_0_matters:
  assumes "getitem pars 0 = getitem pars' 0"
  shows "get_logpdf_func m expected dat pars = get_logpdf_func m expected dat pars' \<and>
         get_sampler rvs m pars = get_sampler rvs m pars' \<and>
         expected_data m pars = expected_data m pars'"
  using rates_depend_on_entry_0 [OF assms, of m]
  by (simp add: get_logpdf_func_def get_sampler_def expected_data_def Let_def)

theorem only_entry_0_matters_witness:
  "getitem [1, 2] 0 = getitem [1, 3, 4] 0 \<and>
   get_logpdf_func \<lparr>signal_yields = [10, 5], background_yields = [2, 3], data = [12, 8]\<rparr>
       observed None [1, 2] =
   get_logpdf_func \<lparr>signal_yields = [10, 5], background_yields = [2, 3], data = [12, 8]\<rparr>
       observed None [1, 3, 4] \<and>
   get_sampler (\<lambda>lam shape (g::nat). Inr (replicate (nat (fst shape)) (map floor lam), Suc g))
       \<lparr>signal_yields = [10, 5], background_yields = [2, 3], data = [12, 8]\<rparr> [1, 2] =
   get_sampler (\<lambda>lam shape (g::nat). Inr (replicate (nat (fst shape)) (map floor lam), Suc g))
       \<lparr>signal_yields = [10, 5], background_yields = [2, 3], data = [12, 8]\<rparr> [1, 3, 4] \<and>
   expected_data \<lparr>signal_yields = [10, 5], background_yields = [2, 3], data = [12, 8]\<rparr> [1, 2] =
   expected_data \<lparr>signal_yields = [10, 5], background_yields = [2, 3], data = [12, 8]\<rparr> [1, 3, 4]"
proof -
  have h: "getitem [1, 2] 0 = getitem [1, 3, 4] 0" by (simp add: getitem_def)
  show ?thesis
    using h only_entry_0_matters [OF h,
        of "\<lparr>signal_yields = [10, 5], background_yields = [2, 3], data = [12, 8]\<rparr>" observed None
           "\<lambda>lam shape (g::nat). Inr (replicate (nat (fst shape)) (map floor lam), Suc g)"]
    by simp
qed

end
